theory Spec2Isabelle
  imports Complex_Main "HOL-Library.Word"
begin

section \<open>JavaScript values and the built-ins the two source files call\<close>

text \<open>
  Both source files are TypeScript: the chat component \<^verbatim>\<open>src/components/Chat.tsx\<close> and the
  request-forwarding function (\<^verbatim>\<open>processMessages\<close> and \<^verbatim>\<open>handler\<close>). At run time the data
  they exchange are JSON values, inspected by duck typing (\<^verbatim>\<open>typeof\<close>, \<^verbatim>\<open>in\<close>, truthiness), so
  the model works on one type of JavaScript values. Strings are byte lists holding the
  UTF-8 encoding of the text; numbers are integers (no fraction occurs in the data of this
  program); an object is the list of its own properties in property order, keys distinct.
  A \<^verbatim>\<open>Buffer\<close> is a list of bytes.
\<close>

type_synonym byte = "8 word"

datatype jsval =
    JUndefined
  | JNull
  | JBool bool
  | JNum int
  | JStr string
  | JArr "jsval list"
  | JObj "(string \<times> jsval) list"
  | JBuffer "byte list"

text \<open>What a \<^verbatim>\<open>throw\<close> carries: \<^verbatim>\<open>new Error(message)\<close>, or a \<^verbatim>\<open>TypeError\<close> of the engine
  (its message text is the engine's and is not modelled).\<close>

datatype js_error = Error string | TypeError

text \<open>Truthiness, as \<^verbatim>\<open>if (v)\<close>, \<^verbatim>\<open>!v\<close>, \<^verbatim>\<open>a || b\<close> and \<^verbatim>\<open>a && b\<close> read a value.\<close>

fun truthy :: "jsval \<Rightarrow> bool" where
  "truthy JUndefined = False"
| "truthy JNull = False"
| "truthy (JBool b) = b"
| "truthy (JNum n) = (n \<noteq> 0)"
| "truthy (JStr s) = (s \<noteq> [])"
| "truthy (JArr xs) = True"
| "truthy (JObj kvs) = True"
| "truthy (JBuffer bs) = True"

text \<open>\<^verbatim>\<open>a || b\<close>: the first operand when it is truthy, the second otherwise.\<close>

definition js_or :: "jsval \<Rightarrow> jsval \<Rightarrow> jsval" where
  "js_or a b = (if truthy a then a else b)"

fun typeof :: "jsval \<Rightarrow> string" where
  "typeof JUndefined = ''undefined''"
| "typeof JNull = ''object''"
| "typeof (JBool b) = ''boolean''"
| "typeof (JNum n) = ''number''"
| "typeof (JStr s) = ''string''"
| "typeof (JArr xs) = ''object''"
| "typeof (JObj kvs) = ''object''"
| "typeof (JBuffer bs) = ''object''"

text \<open>
  Property read \<^verbatim>\<open>v.k\<close>: a \<^verbatim>\<open>TypeError\<close> on \<^verbatim>\<open>undefined\<close> and \<^verbatim>\<open>null\<close>, the own property of an
  object, \<^verbatim>\<open>undefined\<close> when there is none. The sources read only the keys \<^verbatim>\<open>content\<close>,
  \<^verbatim>\<open>image\<close>, \<^verbatim>\<open>source\<close>, \<^verbatim>\<open>bytes\<close>, \<^verbatim>\<open>format\<close>, \<^verbatim>\<open>output\<close>, \<^verbatim>\<open>message\<close> and \<^verbatim>\<open>errorType\<close>; no
  string, number, boolean, array or buffer has a property of one of these names, so the
  read gives \<^verbatim>\<open>undefined\<close> there.
\<close>

fun get_prop :: "jsval \<Rightarrow> string \<Rightarrow> js_error + jsval" where
  "get_prop JUndefined k = Inl TypeError"
| "get_prop JNull k = Inl TypeError"
| "get_prop (JObj kvs) k = Inr (case map_of kvs k of None \<Rightarrow> JUndefined | Some v \<Rightarrow> v)"
| "get_prop v k = Inr JUndefined"

text \<open>Optional chaining \<^verbatim>\<open>v?.k\<close>: \<^verbatim>\<open>undefined\<close> instead of the \<^verbatim>\<open>TypeError\<close>.\<close>

definition opt_get :: "jsval \<Rightarrow> string \<Rightarrow> jsval" where
  "opt_get v k = (case get_prop v k of Inl e \<Rightarrow> JUndefined | Inr x \<Rightarrow> x)"

text \<open>\<^verbatim>\<open>k in v\<close>: a \<^verbatim>\<open>TypeError\<close> unless \<^verbatim>\<open>v\<close> is an object (arrays and buffers are objects;
  they have no property \<^verbatim>\<open>image\<close>, the one key the source asks for).\<close>

fun has_prop :: "string \<Rightarrow> jsval \<Rightarrow> js_error + bool" where
  "has_prop k (JObj kvs) = Inr (k \<in> set (map fst kvs))"
| "has_prop k (JArr xs) = Inr False"
| "has_prop k (JBuffer bs) = Inr False"
| "has_prop k v = Inl TypeError"

text \<open>Property write on a fresh copy, \<^verbatim>\<open>{...o, k: v}\<close>: an existing key keeps its place.\<close>

fun set_prop :: "string \<Rightarrow> jsval \<Rightarrow> (string \<times> jsval) list \<Rightarrow> (string \<times> jsval) list" where
  "set_prop k v [] = [(k, v)]"
| "set_prop k v (p # ps) = (if fst p = k then (k, v) # ps else p # set_prop k v ps)"

text \<open>The own enumerable properties an object spread \<^verbatim>\<open>{...v}\<close> copies. Only the object case
  is reached by the source: on every other value the read of \<^verbatim>\<open>content\<close> that follows raises
  before the copy is used.\<close>

fun own_props :: "jsval \<Rightarrow> (string \<times> jsval) list" where
  "own_props (JObj kvs) = kvs"
| "own_props v = []"

subsection \<open>Text of numbers and values\<close>

fun show_nat :: "nat \<Rightarrow> string" where
  "show_nat n =
     (if n < 10 then [''0123456789'' ! n]
      else show_nat (n div 10) @ [''0123456789'' ! (n mod 10)])"

definition show_int :: "int \<Rightarrow> string" where
  "show_int i = (if i < 0 then CHR ''-'' # show_nat (nat (- i)) else show_nat (nat i))"

fun join :: "string \<Rightarrow> string list \<Rightarrow> string" where
  "join sep [] = []"
| "join sep [x] = x"
| "join sep (x # y # ys) = x @ sep @ join sep (y # ys)"

text \<open>
  \<^verbatim>\<open>String(v)\<close>, which is also how \<^verbatim>\<open>new Error(v)\<close> turns its argument into the message. An
  array prints its elements joined by commas, \<^verbatim>\<open>null\<close> and \<^verbatim>\<open>undefined\<close> elements as the empty
  text; a plain object prints as \<^verbatim>\<open>[object Object]\<close>; a buffer prints the text its bytes
  encode.
\<close>

fun to_string :: "jsval \<Rightarrow> string" where
  "to_string JUndefined = ''undefined''"
| "to_string JNull = ''null''"
| "to_string (JBool b) = (if b then ''true'' else ''false'')"
| "to_string (JNum n) = show_int n"
| "to_string (JStr s) = s"
| "to_string (JArr xs) =
     join '','' (map (\<lambda>x. if x = JUndefined \<or> x = JNull then [] else to_string x) xs)"
| "to_string (JObj kvs) = ''[object Object]''"
| "to_string (JBuffer bs) = map (\<lambda>b. char_of (unat b)) bs"

subsection \<open>\<^verbatim>\<open>JSON.stringify\<close>\<close>

definition hex_digit :: "nat \<Rightarrow> char" where
  "hex_digit n = ''0123456789abcdef'' ! n"

definition json_escape :: "char \<Rightarrow> string" where
  "json_escape c =
     (let n = (of_char c :: nat) in
      if n = 0x22 then [CHR 0x5C, CHR 0x22]
      else if n = 0x5C then [CHR 0x5C, CHR 0x5C]
      else if n = 0x08 then [CHR 0x5C, CHR ''b'']
      else if n = 0x0C then [CHR 0x5C, CHR ''f'']
      else if n = 0x0A then [CHR 0x5C, CHR ''n'']
      else if n = 0x0D then [CHR 0x5C, CHR ''r'']
      else if n = 0x09 then [CHR 0x5C, CHR ''t'']
      else if n < 0x20 then [CHR 0x5C, CHR ''u'', CHR ''0'', CHR ''0'', hex_digit (n div 16), hex_digit (n mod 16)]
      else [c])"

definition json_quote :: "string \<Rightarrow> string" where
  "json_quote s = [CHR 0x22] @ concat (map json_escape s) @ [CHR 0x22]"

text \<open>The text of a value other than \<^verbatim>\<open>undefined\<close>: an \<^verbatim>\<open>undefined\<close> array element is
  written \<^verbatim>\<open>null\<close>, an \<^verbatim>\<open>undefined\<close> property is left out, a buffer is written through its
  \<^verbatim>\<open>toJSON\<close>.\<close>

fun json_text :: "jsval \<Rightarrow> string" where
  "json_text JUndefined = ''null''"
| "json_text JNull = ''null''"
| "json_text (JBool b) = (if b then ''true'' else ''false'')"
| "json_text (JNum n) = show_int n"
| "json_text (JStr s) = json_quote s"
| "json_text (JArr xs) = ''['' @ join '','' (map json_text xs) @ '']''"
| "json_text (JObj kvs) =
     ''{'' @ join '','' (map (\<lambda>(k, v). json_quote k @ '':'' @ json_text v)
                          (filter (\<lambda>(k, v). v \<noteq> JUndefined) kvs)) @ ''}''"
| "json_text (JBuffer bs) =
     ''{'' @ json_quote ''type'' @ '':'' @ json_quote ''Buffer'' @ '','' @ json_quote ''data'' @ '':[''
       @ join '','' (map (\<lambda>b. show_nat (unat b)) bs) @ '']}''"

definition JSON_stringify :: "jsval \<Rightarrow> jsval" where
  "JSON_stringify v = (if v = JUndefined then JUndefined else JStr (json_text v))"

subsection \<open>\<^verbatim>\<open>Buffer.from(s, 'base64')\<close>\<close>

text \<open>
  Node's decoder is lenient: it skips every character outside the base64 alphabets (the
  standard one and the URL-safe one), stops at the first \<^verbatim>\<open>=\<close>, and decodes what is left,
  four characters to three bytes; a rest of three characters gives two bytes, of two
  characters one byte, and a single rest character none.
\<close>

definition b64_value :: "char \<Rightarrow> nat option" where
  "b64_value c =
     (let n = (of_char c :: nat) in
      if 65 \<le> n \<and> n \<le> 90 then Some (n - 65)
      else if 97 \<le> n \<and> n \<le> 122 then Some (n - 71)
      else if 48 \<le> n \<and> n \<le> 57 then Some (n + 4)
      else if c = CHR ''+'' \<or> c = CHR ''-'' then Some 62
      else if c = CHR ''/'' \<or> c = CHR ''_'' then Some 63
      else None)"

fun b64_bytes :: "nat list \<Rightarrow> byte list" where
  "b64_bytes (a # b # c # d # r) =
     of_nat (a * 4 + b div 16) # of_nat ((b mod 16) * 16 + c div 4) # of_nat ((c mod 4) * 64 + d)
       # b64_bytes r"
| "b64_bytes [a, b, c] = [of_nat (a * 4 + b div 16), of_nat ((b mod 16) * 16 + c div 4)]"
| "b64_bytes [a, b] = [of_nat (a * 4 + b div 16)]"
| "b64_bytes r = []"

definition Buffer_from_base64 :: "string \<Rightarrow> byte list" where
  "Buffer_from_base64 s =
     b64_bytes (List.map_filter b64_value (takeWhile (\<lambda>c. c \<noteq> CHR ''='') s))"

subsection \<open>The regular expression \<^verbatim>\<open>/^data:image\/[a-z]+;base64,/\<close>\<close>

fun drop_prefix :: "string \<Rightarrow> string \<Rightarrow> string option" where
  "drop_prefix [] s = Some s"
| "drop_prefix (p # ps) [] = None"
| "drop_prefix (p # ps) (c # cs) = (if p = c then drop_prefix ps cs else None)"

definition is_az :: "char \<Rightarrow> bool" where
  "is_az c = (97 \<le> (of_char c :: nat) \<and> (of_char c :: nat) \<le> 122)"

text \<open>
  \<^verbatim>\<open>s.replace(/^data:image\/[a-z]+;base64,/, '')\<close>. The pattern is anchored at the start and
  not global, so at most the header is removed. \<^verbatim>\<open>[a-z]+\<close> is greedy and the next pattern
  character \<^verbatim>\<open>;\<close> is no letter, so the letters matched are the longest run of letters.
\<close>

definition strip_data_uri :: "string \<Rightarrow> string" where
  "strip_data_uri s =
     (case drop_prefix ''data:image/'' s of
        None \<Rightarrow> s
      | Some r \<Rightarrow>
          if takeWhile is_az r = [] then s
          else (case drop_prefix '';base64,'' (dropWhile is_az r) of
                  None \<Rightarrow> s
                | Some payload \<Rightarrow> payload))"

section \<open>The forwarding function: \<^verbatim>\<open>processMessages\<close> and \<^verbatim>\<open>handler\<close>\<close>

text \<open>\<^verbatim>\<open>Array.prototype.map\<close> with a callback that may throw: the elements are visited from
  left to right and the first exception ends the call.\<close>

fun mapE :: "('a \<Rightarrow> 'e + 'b) \<Rightarrow> 'a list \<Rightarrow> 'e + 'b list" where
  "mapE f [] = Inr []"
| "mapE f (x # xs) =
     (case f x of
        Inl e \<Rightarrow> Inl e
      | Inr y \<Rightarrow> (case mapE f xs of Inl e \<Rightarrow> Inl e | Inr ys \<Rightarrow> Inr (y # ys)))"

text \<open>
  \<^verbatim>\<open>v.map(f)\<close> on a value of unknown shape. An array maps its elements. A buffer has the
  typed-array \<^verbatim>\<open>map\<close>, which hands \<^verbatim>\<open>f\<close> the bytes as numbers: both callbacks of
  \<^verbatim>\<open>processMessages\<close> raise a \<^verbatim>\<open>TypeError\<close> on a number, so only the empty buffer maps (to an
  empty buffer). Every other value has no \<^verbatim>\<open>map\<close>: the call is a \<^verbatim>\<open>TypeError\<close>.
\<close>

fun js_map :: "(jsval \<Rightarrow> js_error + jsval) \<Rightarrow> jsval \<Rightarrow> js_error + jsval" where
  "js_map f (JArr xs) = (case mapE f xs of Inl e \<Rightarrow> Inl e | Inr ys \<Rightarrow> Inr (JArr ys))"
| "js_map f (JBuffer bs) = (if bs = [] then Inr (JBuffer []) else Inl TypeError)"
| "js_map f v = Inl TypeError"

text \<open>The inner callback of \<^verbatim>\<open>processMessages\<close> (source lines 64 to 83), one content item.\<close>

definition processContent :: "jsval \<Rightarrow> js_error + jsval" where
  "processContent content =
     (case has_prop ''image'' content of
        Inl e \<Rightarrow> Inl e
      | Inr False \<Rightarrow> Inr content
      | Inr True \<Rightarrow>
          (case get_prop content ''image'' of
             Inl e \<Rightarrow> Inl e
           | Inr img \<Rightarrow>
               (case get_prop img ''source'' of
                  Inl e \<Rightarrow> Inl e
                | Inr source \<Rightarrow>
                    (case get_prop source ''bytes'' of
                       Inl e \<Rightarrow> Inl e
                     | Inr bytes \<Rightarrow>
                         if truthy bytes then
                           (case bytes of
                              JStr s \<Rightarrow>
                                (let base64Data = strip_data_uri s;
                                     binaryData = Buffer_from_base64 base64Data
                                 in case get_prop img ''format'' of
                                      Inl e \<Rightarrow> Inl e
                                    | Inr format \<Rightarrow>
                                        Inr (JObj [(''image'',
                                          JObj [(''format'', format),
                                                (''source'', JObj [(''bytes'', JBuffer binaryData)])])]))
                            | _ \<Rightarrow> Inr content)
                         else Inr content))))"

text \<open>The outer callback (source lines 62 to 84), one message:
  \<^verbatim>\<open>{...message, content: message.content.map(...)}\<close>.\<close>

definition processMessage :: "jsval \<Rightarrow> js_error + jsval" where
  "processMessage message =
     (case get_prop message ''content'' of
        Inl e \<Rightarrow> Inl e
      | Inr c \<Rightarrow>
          (case js_map processContent c of
             Inl e \<Rightarrow> Inl e
           | Inr c' \<Rightarrow> Inr (JObj (set_prop ''content'' c' (own_props message)))))"

text \<open>
  \<^verbatim>\<open>processMessages(conversation)\<close>. \<^verbatim>\<open>JSON.parse\<close> is the engine's and is a parameter of the
  model: \<^verbatim>\<open>JSON_parse s = None\<close> when it throws a \<^verbatim>\<open>SyntaxError\<close> on \<^verbatim>\<open>s\<close>. Only the parse is
  inside the \<^verbatim>\<open>try\<close>; the two \<^verbatim>\<open>map\<close> calls are after it.
\<close>

definition processMessages :: "(string \<Rightarrow> jsval option) \<Rightarrow> jsval \<Rightarrow> js_error + jsval" where
  "processMessages JSON_parse conversation =
     (case (case conversation of
              JStr s \<Rightarrow>
                (case JSON_parse s of
                   None \<Rightarrow> Inl (Error ''Invalid conversation format'')
                 | Some v \<Rightarrow> Inr v)
            | _ \<Rightarrow> Inr conversation) of
        Inl e \<Rightarrow> Inl e
      | Inr parsedConversation \<Rightarrow> js_map processMessage parsedConversation)"

text \<open>The request \<^verbatim>\<open>handler\<close> builds for the inference client; \<^verbatim>\<open>system\<close> holds the text of
  each system block.\<close>

record inference_config =
  maxTokens :: nat
  temperature :: rat

definition INFERENCE_CONFIG :: inference_config where
  "INFERENCE_CONFIG = \<lparr>maxTokens = 1000, temperature = 1 / 2\<rparr>"

record converse_input =
  modelId :: jsval
  system :: "string list"
  messages :: jsval
  inferenceConfig :: inference_config

text \<open>
  \<^verbatim>\<open>handler(event)\<close>, given \<^verbatim>\<open>event.arguments.conversation\<close>. The inference client is a
  parameter: \<^verbatim>\<open>send input\<close> is the response, or what the rejected promise carries. The
  environment's \<^verbatim>\<open>MODEL_ID\<close> and the prompt text are parameters too. The result is what the
  handler returns or throws, with the list of requests handed to the client.
\<close>

definition handler ::
  "(string \<Rightarrow> jsval option) \<Rightarrow> (converse_input \<Rightarrow> js_error + jsval) \<Rightarrow> jsval \<Rightarrow> string \<Rightarrow> jsval
     \<Rightarrow> (js_error + jsval) \<times> converse_input list" where
  "handler JSON_parse send MODEL_ID SYSTEM_PROMPT conversation =
     (case processMessages JSON_parse conversation of
        Inl e \<Rightarrow> (Inl e, [])
      | Inr processedMessages \<Rightarrow>
          (let input = \<lparr>modelId = MODEL_ID, system = [SYSTEM_PROMPT],
                        messages = processedMessages, inferenceConfig = INFERENCE_CONFIG\<rparr>
           in case send input of
                Inl e \<Rightarrow> (Inl e, [input])
              | Inr response \<Rightarrow>
                  (case get_prop response ''output'' of
                     Inl e \<Rightarrow> (Inl e, [input])
                   | Inr out \<Rightarrow>
                       if \<not> truthy (opt_get out ''message'')
                       then (Inl (Error ''No message in the response output''), [input])
                       else (case get_prop out ''message'' of
                               Inl e \<Rightarrow> (Inl e, [input])
                             | Inr message \<Rightarrow> (Inr (JSON_stringify message), [input])))))"

section \<open>The chat component: \<^verbatim>\<open>Chat.tsx\<close>\<close>

subsection \<open>\<^verbatim>\<open>String.prototype.trim\<close> and \<^verbatim>\<open>split\<close>\<close>

text \<open>
  \<^verbatim>\<open>trim\<close> removes white space and line terminators from both ends: the six ASCII ones, and
  U+00A0, U+1680, U+2000 to U+200A, U+2028, U+2029, U+202F, U+205F, U+3000 and U+FEFF, here
  in their UTF-8 encodings of two and three bytes.
\<close>

definition ws1 :: "string list" where
  "ws1 = [[CHR 0x09], [CHR 0x0A], [CHR 0x0B], [CHR 0x0C], [CHR 0x0D], [CHR 0x20]]"

definition ws2 :: "string list" where
  "ws2 = [[CHR 0xC2, CHR 0xA0]]"

definition ws3 :: "string list" where
  "ws3 = [[CHR 0xE1, CHR 0x9A, CHR 0x80],
          [CHR 0xE2, CHR 0x80, CHR 0x80], [CHR 0xE2, CHR 0x80, CHR 0x81],
          [CHR 0xE2, CHR 0x80, CHR 0x82], [CHR 0xE2, CHR 0x80, CHR 0x83],
          [CHR 0xE2, CHR 0x80, CHR 0x84], [CHR 0xE2, CHR 0x80, CHR 0x85],
          [CHR 0xE2, CHR 0x80, CHR 0x86], [CHR 0xE2, CHR 0x80, CHR 0x87],
          [CHR 0xE2, CHR 0x80, CHR 0x88], [CHR 0xE2, CHR 0x80, CHR 0x89],
          [CHR 0xE2, CHR 0x80, CHR 0x8A],
          [CHR 0xE2, CHR 0x80, CHR 0xA8], [CHR 0xE2, CHR 0x80, CHR 0xA9],
          [CHR 0xE2, CHR 0x80, CHR 0xAF], [CHR 0xE2, CHR 0x81, CHR 0x9F],
          [CHR 0xE3, CHR 0x80, CHR 0x80], [CHR 0xEF, CHR 0xBB, CHR 0xBF]]"

text \<open>The number of bytes of the white-space character a string starts with (ends with),
  0 when it starts (ends) with none.\<close>

definition ws_head :: "string \<Rightarrow> nat" where
  "ws_head s =
     (if take 1 s \<in> set ws1 then 1
      else if take 2 s \<in> set ws2 then 2
      else if take 3 s \<in> set ws3 then 3
      else 0)"

definition ws_tail :: "string \<Rightarrow> nat" where
  "ws_tail s =
     (if drop (length s - 1) s \<in> set ws1 then 1
      else if drop (length s - 2) s \<in> set ws2 then 2
      else if drop (length s - 3) s \<in> set ws3 then 3
      else 0)"

function trimStart :: "string \<Rightarrow> string" where
  "trimStart s = (if ws_head s = 0 then s else trimStart (drop (ws_head s) s))"
  by pat_completeness auto
termination
proof (relation "measure length")
  show "wf (measure length)" by simp
next
  fix s :: string
  assume a: "ws_head s \<noteq> 0"
  have "ws_head [] = 0" by (simp add: ws_head_def ws1_def ws2_def ws3_def)
  with a have "s \<noteq> []" by auto
  with a show "(drop (ws_head s) s, s) \<in> measure length" by simp
qed

function trimEnd :: "string \<Rightarrow> string" where
  "trimEnd s = (if ws_tail s = 0 then s else trimEnd (take (length s - ws_tail s) s))"
  by pat_completeness auto
termination
proof (relation "measure length")
  show "wf (measure length)" by simp
next
  fix s :: string
  assume a: "ws_tail s \<noteq> 0"
  have "ws_tail [] = 0" by (simp add: ws_tail_def ws1_def ws2_def ws3_def)
  with a have "s \<noteq> []" by auto
  with a show "(take (length s - ws_tail s) s, s) \<in> measure length" by simp
qed

declare trimStart.simps [simp del]
declare trimEnd.simps [simp del]

definition trim :: "string \<Rightarrow> string" where
  "trim s = trimEnd (trimStart s)"

text \<open>\<^verbatim>\<open>s.split(c)\<close> for a one-character separator.\<close>

fun split_on :: "char \<Rightarrow> string \<Rightarrow> string list" where
  "split_on c [] = [[]]"
| "split_on c (x # xs) =
     (if x = c then [] # split_on c xs
      else (case split_on c xs of [] \<Rightarrow> [[x]] | h # t \<Rightarrow> (x # h) # t))"

subsection \<open>The component's state\<close>

text \<open>What the component reads of a browser \<^verbatim>\<open>File\<close>: its \<^verbatim>\<open>type\<close> and its \<^verbatim>\<open>size\<close>.\<close>

record File =
  file_type :: string
  file_size :: nat

text \<open>The six \<^verbatim>\<open>useState\<close> cells of \<^verbatim>\<open>Chat\<close>. A message of the history is a JavaScript value:
  the user's is built by \<^verbatim>\<open>createUserMessage\<close>, the assistant's is whatever the response
  parses to.\<close>

record chat_state =
  conversation :: "jsval list"
  inputValue :: string
  selectedImage :: "File option"
  imagePreview :: "string option"
  error :: string
  isLoading :: bool

definition initial_state :: chat_state where
  "initial_state =
     \<lparr>conversation = [], inputValue = [], selectedImage = None, imagePreview = None,
      error = [], isLoading = False\<rparr>"

subsection \<open>The event handlers\<close>

definition handleInputChange :: "string \<Rightarrow> chat_state \<Rightarrow> chat_state" where
  "handleInputChange v st = st\<lparr>error := [], inputValue := v\<rparr>"

definition allowedTypes :: "string list" where
  "allowedTypes = [''image/jpeg'', ''image/jpg'', ''image/png'', ''image/gif'', ''image/webp'']"

text \<open>
  \<^verbatim>\<open>handleImageSelect\<close>, given \<^verbatim>\<open>e.target.files?.[0]\<close>. The second component lists the files
  handed to \<^verbatim>\<open>reader.readAsDataURL\<close>; the read ends later, in \<^verbatim>\<open>reader_onload\<close>.
\<close>

definition handleImageSelect :: "File option \<Rightarrow> chat_state \<Rightarrow> chat_state \<times> File list" where
  "handleImageSelect file st =
     (case file of
        None \<Rightarrow> (st, [])
      | Some f \<Rightarrow>
          if file_type f \<notin> set allowedTypes then
            (st\<lparr>error := ''Please select a valid image file (JPEG, PNG, GIF, or WebP)''\<rparr>, [])
          else if file_size f > 5 * 1024 * 1024 then
            (st\<lparr>error := ''Image size must be less than 5MB''\<rparr>, [])
          else (st\<lparr>selectedImage := Some f, error := []\<rparr>, [f]))"

text \<open>\<^verbatim>\<open>reader.onload\<close>: \<^verbatim>\<open>setImagePreview(e.target?.result as string)\<close>.\<close>

definition reader_onload :: "string option \<Rightarrow> chat_state \<Rightarrow> chat_state" where
  "reader_onload result st = st\<lparr>imagePreview := result\<rparr>"

text \<open>\<^verbatim>\<open>removeImage\<close>; the reset of the file input element is an effect on the page, outside
  the component's state.\<close>

definition removeImage :: "chat_state \<Rightarrow> chat_state" where
  "removeImage st = st\<lparr>selectedImage := None, imagePreview := None\<rparr>"

text \<open>\<^verbatim>\<open>createUserMessage\<close>: the message, and the state after \<^verbatim>\<open>setInputValue("")\<close> and
  \<^verbatim>\<open>removeImage()\<close>. The image is pushed when \<^verbatim>\<open>selectedImage && imagePreview\<close>: a file is
  selected and the preview is a non-empty string.\<close>

definition createUserMessage :: "chat_state \<Rightarrow> jsval \<times> chat_state" where
  "createUserMessage st =
     (let textPart = (if trim (inputValue st) \<noteq> [] then [JObj [(''text'', JStr (inputValue st))]]
                      else []);
          imagePart =
            (case selectedImage st of
               None \<Rightarrow> []
             | Some f \<Rightarrow>
                 (case imagePreview st of
                    None \<Rightarrow> []
                  | Some p \<Rightarrow>
                      if p = [] then []
                      else
                        (let format = (case split_on (CHR ''/'') (file_type f) of
                                         a # b # r \<Rightarrow> JStr b
                                       | _ \<Rightarrow> JUndefined)
                         in [JObj [(''image'',
                               JObj [(''format'', format),
                                     (''source'', JObj [(''bytes'', JStr p)])])]])));
          newUserMessage = JObj [(''role'', JStr ''user''), (''content'', JArr (textPart @ imagePart))]
      in (newUserMessage, removeImage (st\<lparr>inputValue := []\<rparr>)))"

text \<open>
  What \<^verbatim>\<open>await amplifyClient.queries.chat(...)\<close> gives: the pair \<^verbatim>\<open>{data, errors}\<close> (\<^verbatim>\<open>errors\<close>
  is an array or absent), or a rejection carrying an \<^verbatim>\<open>Error\<close> with its message.
\<close>

datatype chat_result = Resolved jsval "jsval list option" | Rejected string

text \<open>\<^verbatim>\<open>errors?.[0]\<close>.\<close>

definition first_error :: "jsval list option \<Rightarrow> jsval" where
  "first_error errors = (case errors of None \<Rightarrow> JUndefined | Some [] \<Rightarrow> JUndefined | Some (e # es) \<Rightarrow> e)"

text \<open>The \<^verbatim>\<open>errorMessage\<close> of source lines 131 to 134, a chain of \<^verbatim>\<open>||\<close>.\<close>

definition errorMessage :: "jsval list option \<Rightarrow> jsval" where
  "errorMessage errors =
     js_or (js_or (js_or (opt_get (first_error errors) ''message'')
                         (opt_get (first_error errors) ''errorType''))
                  (if typeof (first_error errors) = ''object''
                   then JSON_stringify (first_error errors)
                   else JStr (to_string (first_error errors))))
           (JStr ''An unknown error occurred.'')"

text \<open>
  \<^verbatim>\<open>fetchChatResponse(message)\<close> in its two halves. Up to the \<^verbatim>\<open>await\<close>: \<^verbatim>\<open>setIsLoading(true)\<close>
  and the argument of the remote call, the history with the new message appended, as JSON
  text. The state given is the one \<^verbatim>\<open>createUserMessage\<close> left; it did not touch the
  history.
\<close>

definition fetchChatResponse_call :: "jsval \<Rightarrow> chat_state \<Rightarrow> chat_state \<times> jsval" where
  "fetchChatResponse_call message st =
     (let updatedConversation = conversation st @ [message]
      in (st\<lparr>isLoading := True\<rparr>, JSON_stringify (JArr updatedConversation)))"

text \<open>After the \<^verbatim>\<open>await\<close>: the \<^verbatim>\<open>try\<close> body, the \<^verbatim>\<open>catch\<close> (\<^verbatim>\<open>setError(err.message)\<close>) and the
  \<^verbatim>\<open>finally\<close> (\<^verbatim>\<open>setIsLoading(false)\<close>). \<^verbatim>\<open>JSON.parse\<close> is a parameter, as above; when it
  throws, the source throws \<^verbatim>\<open>new Error('Failed to parse response data')\<close>, which the
  \<^verbatim>\<open>catch\<close> turns into the error text.\<close>

definition fetchChatResponse_settle ::
  "(string \<Rightarrow> jsval option) \<Rightarrow> jsval \<Rightarrow> chat_result \<Rightarrow> chat_state \<Rightarrow> chat_state" where
  "fetchChatResponse_settle JSON_parse message res st =
     (case res of
        Rejected m \<Rightarrow> st\<lparr>error := m, isLoading := False\<rparr>
      | Resolved data errors \<Rightarrow>
          if errors = None \<and> truthy data then
            (case (case data of JStr s \<Rightarrow> JSON_parse s | _ \<Rightarrow> Some data) of
               None \<Rightarrow> st\<lparr>error := ''Failed to parse response data'', isLoading := False\<rparr>
             | Some responseMessage \<Rightarrow>
                 st\<lparr>conversation := conversation st @ [message, responseMessage],
                    isLoading := False\<rparr>)
          else st\<lparr>error := to_string (errorMessage errors), isLoading := False\<rparr>)"

text \<open>The whole call, the remote operation a parameter: the final state and the arguments
  of the remote calls made.\<close>

definition fetchChatResponse ::
  "(string \<Rightarrow> jsval option) \<Rightarrow> (jsval \<Rightarrow> chat_result) \<Rightarrow> jsval \<Rightarrow> chat_state
     \<Rightarrow> chat_state \<times> jsval list" where
  "fetchChatResponse JSON_parse chat message st =
     (let (st1, request) = fetchChatResponse_call message st
      in (fetchChatResponse_settle JSON_parse message (chat request) st1, [request]))"

definition handleSubmit ::
  "(string \<Rightarrow> jsval option) \<Rightarrow> (jsval \<Rightarrow> chat_result) \<Rightarrow> chat_state \<Rightarrow> chat_state \<times> jsval list" where
  "handleSubmit JSON_parse chat st =
     (if trim (inputValue st) \<noteq> [] \<or> selectedImage st \<noteq> None then
        (let (message, st1) = createUserMessage st
         in fetchChatResponse JSON_parse chat message st1)
      else (st, []))"

section \<open>The declared shapes of the data\<close>

text \<open>
  The TypeScript interfaces of both files (\<^verbatim>\<open>TextContent\<close>, \<^verbatim>\<open>ImageContent\<close>, \<^verbatim>\<open>Message\<close>), with
  \<^verbatim>\<open>bytes: string | Buffer\<close> as the forwarding function declares it, and the JavaScript
  value each one is.
\<close>

datatype ImageBytes = Base64 string | Binary "byte list"

datatype MessageContent = TextContent string | ImageContent string ImageBytes

record Message =
  role :: string
  content :: "MessageContent list"

fun js_of_bytes :: "ImageBytes \<Rightarrow> jsval" where
  "js_of_bytes (Base64 s) = JStr s"
| "js_of_bytes (Binary bs) = JBuffer bs"

fun js_of_content :: "MessageContent \<Rightarrow> jsval" where
  "js_of_content (TextContent t) = JObj [(''text'', JStr t)]"
| "js_of_content (ImageContent f b) =
     JObj [(''image'', JObj [(''format'', JStr f), (''source'', JObj [(''bytes'', js_of_bytes b)])])]"

definition js_of_message :: "Message \<Rightarrow> jsval" where
  "js_of_message m = JObj [(''role'', JStr (role m)), (''content'', JArr (map js_of_content (content m)))]"

definition js_of_conversation :: "Message list \<Rightarrow> jsval" where
  "js_of_conversation c = JArr (map js_of_message c)"

text \<open>A stand-in for \<^verbatim>\<open>JSON.parse\<close> in closed examples: it knows the texts of the values
  listed and rejects every other text. Where it answers, its answer is a value whose JSON
  text is the input.\<close>

definition JSON_parse_among :: "jsval list \<Rightarrow> string \<Rightarrow> jsval option" where
  "JSON_parse_among known s = find (\<lambda>v. json_text v = s) known"

text \<open>A character of base64 text: one of either alphabet, or the padding \<^verbatim>\<open>=\<close>.\<close>

definition base64_char :: "char \<Rightarrow> bool" where
  "base64_char c = (b64_value c \<noteq> None \<or> c = CHR ''='')"

text \<open>An image item whose \<^verbatim>\<open>bytes\<close> is a string.\<close>

fun has_string_bytes :: "MessageContent \<Rightarrow> bool" where
  "has_string_bytes (ImageContent f (Base64 s)) = True"
| "has_string_bytes it = False"

text \<open>The argument of the remote call a submit makes from a state.\<close>

definition submit_request :: "chat_state \<Rightarrow> jsval" where
  "submit_request st = snd (fetchChatResponse_call (fst (createUserMessage st)) (snd (createUserMessage st)))"

text \<open>The declared shape of an entry of \<^verbatim>\<open>errors\<close>: an object whose \<^verbatim>\<open>message\<close> and \<^verbatim>\<open>errorType\<close>,
  where present, are strings. \<^verbatim>\<open>text_of\<close> is the string a property holds, empty when it holds none.\<close>

fun string_or_absent :: "jsval \<Rightarrow> bool" where
  "string_or_absent JUndefined = True"
| "string_or_absent (JStr s) = True"
| "string_or_absent v = False"

definition gql_error :: "jsval \<Rightarrow> bool" where
  "gql_error e =
     (case e of
        JObj kvs \<Rightarrow> string_or_absent (opt_get e ''message'') \<and> string_or_absent (opt_get e ''errorType'')
      | _ \<Rightarrow> False)"

definition text_of :: "jsval \<Rightarrow> string" where
  "text_of v = (case v of JStr s \<Rightarrow> s | _ \<Rightarrow> [])"


text \<open>Sample data for the closed examples.\<close>

definition sample_user_message :: Message where
  "sample_user_message =
     \<lparr>role = ''user'',
      content = [TextContent ''Show me Paris'', ImageContent ''png'' (Base64 ''data:image/png;base64,QUJD'')]\<rparr>"

definition sample_text_message :: Message where
  "sample_text_message = \<lparr>role = ''user'', content = [TextContent ''Show me Paris'']\<rparr>"

definition sample_assistant_message :: Message where
  "sample_assistant_message = \<lparr>role = ''assistant'', content = [TextContent ''Bonjour'']\<rparr>"

definition sample_png :: File where
  "sample_png = \<lparr>file_type = ''image/png'', file_size = 1000\<rparr>"

definition sample_large_jpeg :: File where
  "sample_large_jpeg = \<lparr>file_type = ''image/jpeg'', file_size = 6 * 1024 * 1024\<rparr>"


definition sample_reply :: jsval where
  "sample_reply = js_of_message sample_assistant_message"

text \<open>Remote operations for the closed examples: one that answers with the sample reply as
  JSON text, one that reports a list of errors and no data.\<close>

definition chat_replies :: "jsval \<Rightarrow> chat_result" where
  "chat_replies request = Resolved (JSON_stringify sample_reply) None"

definition chat_reports :: "jsval list \<Rightarrow> jsval \<Rightarrow> chat_result" where
  "chat_reports es request = Resolved JNull (Some es)"

section \<open>Basic facts\<close>

lemma mapE_length: "mapE f xs = Inr ys \<Longrightarrow> length ys = length xs"
  by (induction xs arbitrary: ys) (auto split: sum.splits)

lemma drop_prefix_append: "drop_prefix p (p @ r) = Some r"
  by (induction p) auto

lemma drop_prefix_Some: "drop_prefix p s = Some r \<Longrightarrow> s = p @ r"
  by (induction p s rule: drop_prefix.induct) (auto split: if_splits)

lemma semicolon_not_az: "\<not> is_az (CHR '';'')"
  by (simp add: is_az_def)

lemma strip_data_uri_header:
  assumes "fmt \<noteq> []" and "\<forall>c\<in>set fmt. is_az c"
  shows "strip_data_uri (''data:image/'' @ fmt @ '';base64,'' @ b) = b"
proof -
  have d: "drop_prefix ''data:image/'' (''data:image/'' @ fmt @ '';base64,'' @ b) = Some (fmt @ '';base64,'' @ b)"
    by (rule drop_prefix_append)
  have t: "takeWhile is_az (fmt @ '';base64,'' @ b) = fmt"
    using assms(2) semicolon_not_az by (simp add: takeWhile_append2)
  have w: "dropWhile is_az (fmt @ '';base64,'' @ b) = '';base64,'' @ b"
    using assms(2) semicolon_not_az by (simp add: dropWhile_append2)
  have p: "drop_prefix '';base64,'' ('';base64,'' @ b) = Some b"
    by (rule drop_prefix_append)
  show ?thesis
    unfolding strip_data_uri_def d using assms(1) by (simp only: option.case t w p if_False)
qed

lemma strip_data_uri_no_colon:
  assumes "CHR '':'' \<notin> set s"
  shows "strip_data_uri s = s"
proof (cases "drop_prefix ''data:image/'' s")
  case None
  then show ?thesis by (simp add: strip_data_uri_def)
next
  case (Some r)
  then have "s = ''data:image/'' @ r" by (rule drop_prefix_Some)
  then have "CHR '':'' \<in> set s" by simp
  with assms show ?thesis by simp
qed

lemma colon_not_base64: "\<not> base64_char (CHR '':'')"
  by (simp add: base64_char_def b64_value_def)

lemma strip_data_uri_base64:
  assumes "\<forall>c\<in>set b. base64_char c"
  shows "strip_data_uri b = b"
  using assms colon_not_base64 by (intro strip_data_uri_no_colon) auto

declare js_of_content.simps [simp del]

lemma processContent_text:
  "processContent (js_of_content (TextContent t)) = Inr (js_of_content (TextContent t))"
  by (simp add: processContent_def js_of_content.simps)

lemma processContent_binary:
  "processContent (js_of_content (ImageContent f (Binary bs))) = Inr (js_of_content (ImageContent f (Binary bs)))"
  by (simp add: processContent_def js_of_content.simps)

lemma processContent_base64:
  "processContent (js_of_content (ImageContent f (Base64 s))) =
     Inr (if s = [] then js_of_content (ImageContent f (Base64 s))
          else js_of_content (ImageContent f (Binary (Buffer_from_base64 (strip_data_uri s)))))"
  by (simp add: processContent_def js_of_content.simps)


lemma processContent_non_string:
  assumes "\<forall>s. b \<noteq> JStr s"
  shows "processContent (JObj [(''image'', JObj [(''format'', fmt), (''source'', JObj [(''bytes'', b)])])])
           = Inr (JObj [(''image'', JObj [(''format'', fmt), (''source'', JObj [(''bytes'', b)])])])"
  using assms by (cases b) (simp_all add: processContent_def)

lemma processContent_typed_total: "\<exists>y. processContent (js_of_content it) = Inr y"
proof (cases it)
  case (TextContent t)
  then show ?thesis by (simp add: processContent_text)
next
  case (ImageContent f b)
  then show ?thesis
    by (cases b) (simp_all add: processContent_base64 processContent_binary)
qed

lemma processContent_unchanged:
  "\<not> has_string_bytes it \<Longrightarrow> processContent (js_of_content it) = Inr (js_of_content it)"
proof (cases it)
  case (TextContent t)
  then show ?thesis by (simp add: processContent_text)
next
  case (ImageContent f b)
  assume "\<not> has_string_bytes it"
  with ImageContent show ?thesis
    by (cases b) (simp_all add: processContent_binary)
qed

lemma mapE_total: "\<forall>x\<in>set xs. \<exists>y. f x = Inr y \<Longrightarrow> \<exists>ys. mapE f xs = Inr ys"
  by (induction xs) (auto split: sum.splits)

lemma mapE_nth: "mapE f xs = Inr ys \<Longrightarrow> j < length xs \<Longrightarrow> f (xs ! j) = Inr (ys ! j)"
proof (induction xs arbitrary: ys j)
  case Nil
  then show ?case by simp
next
  case (Cons x xs)
  from Cons.prems(1) obtain y zs where fx: "f x = Inr y" and rest: "mapE f xs = Inr zs" and ys: "ys = y # zs"
    by (auto split: sum.splits)
  show ?case
  proof (cases j)
    case 0
    with fx ys show ?thesis by simp
  next
    case (Suc k)
    with Cons.prems(2) have "k < length xs" by simp
    from Cons.IH [OF rest this] Suc ys show ?thesis by simp
  qed
qed

lemma mapE_same: "\<forall>x\<in>set xs. f x = Inr x \<Longrightarrow> mapE f xs = Inr xs"
  by (induction xs) auto

lemma processMessage_typed:
  "processMessage (js_of_message m) =
     (case mapE processContent (map js_of_content (content m)) of
        Inl e \<Rightarrow> Inl e
      | Inr ys \<Rightarrow> Inr (JObj [(''role'', JStr (role m)), (''content'', JArr ys)]))"
  by (simp add: processMessage_def js_of_message_def split: sum.splits)

lemma processMessage_typed_total: "\<exists>y. processMessage (js_of_message m) = Inr y"
proof -
  have "\<forall>x\<in>set (map js_of_content (content m)). \<exists>y. processContent x = Inr y"
    using processContent_typed_total by auto
  then obtain ys where "mapE processContent (map js_of_content (content m)) = Inr ys"
    using mapE_total by blast
  then show ?thesis by (simp add: processMessage_typed)
qed

lemma processMessage_unchanged:
  assumes "\<forall>it\<in>set (content m). \<not> has_string_bytes it"
  shows "processMessage (js_of_message m) = Inr (js_of_message m)"
proof -
  have "\<forall>x\<in>set (map js_of_content (content m)). processContent x = Inr x"
    using assms processContent_unchanged by auto
  then have "mapE processContent (map js_of_content (content m)) = Inr (map js_of_content (content m))"
    by (rule mapE_same)
  then show ?thesis unfolding processMessage_typed by (simp add: js_of_message_def)
qed

lemma processMessages_array:
  "processMessages JSON_parse (JArr ms) = (case mapE processMessage ms of Inl e \<Rightarrow> Inl e | Inr ys \<Rightarrow> Inr (JArr ys))"
  by (simp add: processMessages_def)

lemma processMessages_parsed:
  "JSON_parse s = Some v \<Longrightarrow> processMessages JSON_parse (JStr s) = js_map processMessage v"
  by (simp add: processMessages_def)

lemma processMessages_unchanged:
  assumes "\<forall>m\<in>set c. \<forall>it\<in>set (content m). \<not> has_string_bytes it"
  shows "processMessages JSON_parse (js_of_conversation c) = Inr (js_of_conversation c)"
proof -
  have "\<forall>x\<in>set (map js_of_message c). processMessage x = Inr x"
    using assms processMessage_unchanged by auto
  then have "mapE processMessage (map js_of_message c) = Inr (map js_of_message c)"
    by (rule mapE_same)
  then show ?thesis by (simp add: processMessages_array js_of_conversation_def)
qed

section \<open>The conversation normalizer\<close>

text \<open>
  Claim C4. For every string input to \<^verbatim>\<open>processMessages\<close> that \<^verbatim>\<open>JSON.parse\<close> rejects, the
  call fails with the error \<^verbatim>\<open>Invalid conversation format\<close>: there is no output, so no part of
  a conversation has been transformed. \<^verbatim>\<open>handler\<close> then throws the same error and has handed
  no request to the inference client.
\<close>

theorem non_json_text_is_rejected:
  assumes "JSON_parse s = None"
  shows "processMessages JSON_parse (JStr s) = Inl (Error ''Invalid conversation format'')
       \<and> handler JSON_parse send MODEL_ID SYSTEM_PROMPT (JStr s)
           = (Inl (Error ''Invalid conversation format''), [])"
  using assms by (simp add: processMessages_def handler_def)

theorem non_json_text_is_rejected_witness:
  "processMessages (JSON_parse_among [js_of_conversation []]) (JStr ''not json'')
     = Inl (Error ''Invalid conversation format'')
   \<and> handler (JSON_parse_among [js_of_conversation []])
        (\<lambda>input. Inr (JObj [(''output'', JObj [(''message'', JObj [(''role'', JStr ''assistant'')])])]))
        (JStr ''model'') ''prompt'' (JStr ''not json'')
     = (Inl (Error ''Invalid conversation format''), [])"
proof -
  have h: "JSON_parse_among [js_of_conversation []] ''not json'' = None"
    by (simp add: JSON_parse_among_def js_of_conversation_def)
  show ?thesis
    using h by (rule non_json_text_is_rejected [of "JSON_parse_among [js_of_conversation []]" "''not json''"])
qed

text \<open>
  Claim C5, as the code has it. For every image item whose \<^verbatim>\<open>bytes\<close> is a non-empty base64
  string \<^verbatim>\<open>b\<close>, the item normalizes to the same binary payload, the decoding of \<^verbatim>\<open>b\<close>,
  whether \<^verbatim>\<open>bytes\<close> is \<^verbatim>\<open>b\<close> itself or \<^verbatim>\<open>b\<close> after a header \<^verbatim>\<open>data:image/<fmt>;base64,\<close> (\<^verbatim>\<open>fmt\<close> one
  or more lower-case letters, what the pattern \<^verbatim>\<open>[a-z]+\<close> matches); the \<^verbatim>\<open>format\<close> field is
  unchanged. The witness is the example of the specification: \<^verbatim>\<open>data:image/png;base64,QUJD\<close>
  and \<^verbatim>\<open>QUJD\<close> both give the bytes 65, 66, 67 (A, B, C) with format \<^verbatim>\<open>png\<close>.
\<close>

theorem data_uri_header_is_ignored:
  assumes "b \<noteq> []" and "\<forall>c\<in>set b. base64_char c" and "fmt \<noteq> []" and "\<forall>c\<in>set fmt. is_az c"
  shows "processContent (js_of_content (ImageContent f (Base64 (''data:image/'' @ fmt @ '';base64,'' @ b))))
           = Inr (js_of_content (ImageContent f (Binary (Buffer_from_base64 b))))
       \<and> processContent (js_of_content (ImageContent f (Base64 b)))
           = Inr (js_of_content (ImageContent f (Binary (Buffer_from_base64 b))))"
proof -
  have 1: "strip_data_uri (''data:image/'' @ fmt @ '';base64,'' @ b) = b"
    using assms(3,4) by (rule strip_data_uri_header)
  have 2: "strip_data_uri b = b"
    using assms(2) by (rule strip_data_uri_base64)
  have 3: "''data:image/'' @ fmt @ '';base64,'' @ b \<noteq> []" by simp
  show ?thesis
    unfolding processContent_base64 1 2 using assms(1) 3 by simp
qed

theorem data_uri_header_is_ignored_witness:
  "processContent (js_of_content (ImageContent ''png'' (Base64 ''data:image/png;base64,QUJD'')))
     = Inr (js_of_content (ImageContent ''png'' (Binary [65, 66, 67])))
   \<and> processContent (js_of_content (ImageContent ''png'' (Base64 ''QUJD'')))
     = Inr (js_of_content (ImageContent ''png'' (Binary [65, 66, 67])))"
proof -
  have b: "Buffer_from_base64 ''QUJD'' = [65, 66, 67]"
    by (simp add: Buffer_from_base64_def b64_value_def List.map_filter_def)
  have h1: "''QUJD'' \<noteq> []" by simp
  have h2: "\<forall>c\<in>set ''QUJD''. base64_char c" by (simp add: base64_char_def b64_value_def)
  have h3: "''png'' \<noteq> []" by simp
  have h4: "\<forall>c\<in>set ''png''. is_az c" by (simp add: is_az_def)
  show ?thesis
    using data_uri_header_is_ignored [OF h1 h2 h3 h4, of "''png''"] b by simp
qed

text \<open>
  The claim as stated, for every base64 string, fails at the empty one: the guard
  \<^verbatim>\<open>content.image.source.bytes\<close> is false on the empty string, so the item without a header
  is returned as it is, its \<^verbatim>\<open>bytes\<close> still the string, while the header alone is stripped
  and decoded to the empty buffer.
\<close>

theorem empty_payload_counterexample:
  "processContent (js_of_content (ImageContent ''png'' (Base64 ''data:image/png;base64,'')))
     = Inr (js_of_content (ImageContent ''png'' (Binary [])))
   \<and> processContent (js_of_content (ImageContent ''png'' (Base64 [])))
     = Inr (js_of_content (ImageContent ''png'' (Base64 [])))
   \<and> processContent (js_of_content (ImageContent ''png'' (Base64 ''data:image/png;base64,'')))
     \<noteq> processContent (js_of_content (ImageContent ''png'' (Base64 [])))"
  by (simp add: processContent_def strip_data_uri_def is_az_def Buffer_from_base64_def
      List.map_filter_def js_of_content.simps)

text \<open>
  Claim C6. \<^verbatim>\<open>processMessages\<close> returns a conversation as it is when all its content items are
  text items, and more generally when none of its items is an image item with string-typed
  \<^verbatim>\<open>bytes\<close>; an image item whose \<^verbatim>\<open>bytes\<close> is a buffer is returned as it is (it is not decoded
  again), and so is one whose \<^verbatim>\<open>bytes\<close> is any other value that is not a string; and an item
  that is returned changed is an image item with string-typed \<^verbatim>\<open>bytes\<close>.
\<close>

theorem items_without_string_bytes_are_unchanged:
  "((\<forall>m\<in>set c. \<forall>it\<in>set (content m). \<exists>t. it = TextContent t)
      \<longrightarrow> processMessages JSON_parse (js_of_conversation c) = Inr (js_of_conversation c))
   \<and> ((\<forall>m\<in>set c. \<forall>it\<in>set (content m). \<not> has_string_bytes it)
      \<longrightarrow> processMessages JSON_parse (js_of_conversation c) = Inr (js_of_conversation c))
   \<and> processContent (js_of_content (ImageContent f (Binary bs)))
       = Inr (js_of_content (ImageContent f (Binary bs)))
   \<and> ((\<forall>s. b \<noteq> JStr s) \<longrightarrow>
         processContent (JObj [(''image'', JObj [(''format'', fmt), (''source'', JObj [(''bytes'', b)])])])
           = Inr (JObj [(''image'', JObj [(''format'', fmt), (''source'', JObj [(''bytes'', b)])])]))
   \<and> (processContent (js_of_content it) \<noteq> Inr (js_of_content it) \<longrightarrow> has_string_bytes it)"
proof (intro conjI impI)
  assume a: "\<forall>m\<in>set c. \<forall>it\<in>set (content m). \<exists>t. it = TextContent t"
  have "\<forall>m\<in>set c. \<forall>it\<in>set (content m). \<not> has_string_bytes it"
  proof (intro ballI)
    fix m it assume "m \<in> set c" and "it \<in> set (content m)"
    with a obtain t where "it = TextContent t" by blast
    then show "\<not> has_string_bytes it" by simp
  qed
  then show "processMessages JSON_parse (js_of_conversation c) = Inr (js_of_conversation c)"
    by (rule processMessages_unchanged)
next
  assume "\<forall>m\<in>set c. \<forall>it\<in>set (content m). \<not> has_string_bytes it"
  then show "processMessages JSON_parse (js_of_conversation c) = Inr (js_of_conversation c)"
    by (rule processMessages_unchanged)
next
  show "processContent (js_of_content (ImageContent f (Binary bs)))
       = Inr (js_of_content (ImageContent f (Binary bs)))"
    by (rule processContent_binary)
next
  assume "\<forall>s. b \<noteq> JStr s"
  then show "processContent (JObj [(''image'', JObj [(''format'', fmt), (''source'', JObj [(''bytes'', b)])])])
           = Inr (JObj [(''image'', JObj [(''format'', fmt), (''source'', JObj [(''bytes'', b)])])])"
    by (rule processContent_non_string)
next
  assume "processContent (js_of_content it) \<noteq> Inr (js_of_content it)"
  then show "has_string_bytes it"
    using processContent_unchanged by blast
qed

theorem items_without_string_bytes_are_unchanged_witness:
  "processMessages (JSON_parse_among []) (js_of_conversation [sample_text_message, sample_assistant_message])
     = Inr (js_of_conversation [sample_text_message, sample_assistant_message])
   \<and> processContent (js_of_content (ImageContent ''png'' (Binary [65, 66, 67])))
       = Inr (js_of_content (ImageContent ''png'' (Binary [65, 66, 67])))
   \<and> processContent (JObj [(''image'', JObj [(''format'', JStr ''png''), (''source'', JObj [(''bytes'', JNull)])])])
       = Inr (JObj [(''image'', JObj [(''format'', JStr ''png''), (''source'', JObj [(''bytes'', JNull)])])])
   \<and> has_string_bytes (ImageContent ''png'' (Base64 ''QUJD''))"
proof -
  have n: "\<forall>s. JNull \<noteq> JStr s" by simp
  have ne: "processContent (js_of_content (ImageContent ''png'' (Base64 ''QUJD'')))
              \<noteq> Inr (js_of_content (ImageContent ''png'' (Base64 ''QUJD'')))"
    unfolding processContent_base64 by (simp add: js_of_content.simps)
  have t: "\<forall>m\<in>set [sample_text_message, sample_assistant_message]. \<forall>it\<in>set (content m). \<exists>t. it = TextContent t"
    by (simp add: sample_text_message_def sample_assistant_message_def)
  show ?thesis
    using items_without_string_bytes_are_unchanged
            [where c = "[sample_text_message, sample_assistant_message]" and JSON_parse = "JSON_parse_among []"
               and f = "''png''" and bs = "[65, 66, 67]" and b = JNull and fmt = "JStr ''png''"
               and it = "ImageContent ''png'' (Base64 ''QUJD'')"] t ne n
    by blast
qed

text \<open>
  Claim C7. For every well-shaped conversation, given as a value or as a string that parses
  to it, \<^verbatim>\<open>processMessages\<close> succeeds with as many messages as the input has; the message at
  each position keeps the role of the input message at that position, and its content has
  as many items as the input's, the item at each position being the normalization of the
  input item at that position.
\<close>

theorem order_is_preserved:
  assumes "inp = js_of_conversation c \<or> (inp = JStr s \<and> JSON_parse s = Some (js_of_conversation c))"
  shows "\<exists>out. processMessages JSON_parse inp = Inr (JArr out) \<and> length out = length c
           \<and> (\<forall>i<length c.
                 opt_get (out ! i) ''role'' = JStr (role (c ! i))
               \<and> (\<exists>items. opt_get (out ! i) ''content'' = JArr items
                     \<and> length items = length (content (c ! i))
                     \<and> (\<forall>j<length items.
                           processContent (js_of_content (content (c ! i) ! j)) = Inr (items ! j))))"
proof -
  have "\<forall>x\<in>set (map js_of_message c). \<exists>y. processMessage x = Inr y"
    using processMessage_typed_total by auto
  then obtain out where out: "mapE processMessage (map js_of_message c) = Inr out"
    using mapE_total by blast
  have run: "processMessages JSON_parse inp = Inr (JArr out)"
    using assms out
    by (auto simp: processMessages_array processMessages_parsed js_of_conversation_def)
  have len: "length out = length c"
    using mapE_length [OF out] by simp
  have each: "opt_get (out ! i) ''role'' = JStr (role (c ! i))
               \<and> (\<exists>items. opt_get (out ! i) ''content'' = JArr items
                     \<and> length items = length (content (c ! i))
                     \<and> (\<forall>j<length items.
                           processContent (js_of_content (content (c ! i) ! j)) = Inr (items ! j)))"
    if i: "i < length c" for i
  proof -
    have m: "processMessage (js_of_message (c ! i)) = Inr (out ! i)"
      using mapE_nth [OF out, of i] i by simp
    obtain ys where ys: "mapE processContent (map js_of_content (content (c ! i))) = Inr ys"
      and oi: "out ! i = JObj [(''role'', JStr (role (c ! i))), (''content'', JArr ys)]"
      using m unfolding processMessage_typed by (auto split: sum.splits)
    have l: "length ys = length (content (c ! i))"
      using mapE_length [OF ys] by simp
    have items: "processContent (js_of_content (content (c ! i) ! j)) = Inr (ys ! j)" if "j < length ys" for j
      using mapE_nth [OF ys, of j] that l by simp
    show ?thesis
      using oi l items by (simp add: opt_get_def)
  qed
  from run len each show ?thesis by blast
qed

lemma sample_conversation_normalized:
  "processMessages (JSON_parse_among []) (js_of_conversation [sample_user_message, sample_assistant_message])
     = Inr (js_of_conversation
              [\<lparr>role = ''user'',
                content = [TextContent ''Show me Paris'', ImageContent ''png'' (Binary [65, 66, 67])]\<rparr>,
               sample_assistant_message])"
proof -
  have s: "strip_data_uri ''data:image/png;base64,QUJD'' = ''QUJD''"
    by (simp add: strip_data_uri_def is_az_def)
  have b: "Buffer_from_base64 ''QUJD'' = [65, 66, 67]"
    by (simp add: Buffer_from_base64_def b64_value_def List.map_filter_def)
  have u: "processMessage (js_of_message sample_user_message)
             = Inr (js_of_message \<lparr>role = ''user'',
                      content = [TextContent ''Show me Paris'', ImageContent ''png'' (Binary [65, 66, 67])]\<rparr>)"
    unfolding processMessage_typed
    by (simp add: sample_user_message_def processContent_text processContent_base64 s b js_of_message_def)
  have a: "processMessage (js_of_message sample_assistant_message) = Inr (js_of_message sample_assistant_message)"
    by (rule processMessage_unchanged) (simp add: sample_assistant_message_def)
  show ?thesis
    unfolding js_of_conversation_def processMessages_array by (simp add: u a)
qed

theorem order_is_preserved_witness:
  "\<exists>out. processMessages (JSON_parse_among []) (js_of_conversation [sample_user_message, sample_assistant_message])
            = Inr (JArr out)
      \<and> length out = length [sample_user_message, sample_assistant_message]
      \<and> (\<forall>i<length [sample_user_message, sample_assistant_message].
            opt_get (out ! i) ''role'' = JStr (role ([sample_user_message, sample_assistant_message] ! i))
          \<and> (\<exists>items. opt_get (out ! i) ''content'' = JArr items
                \<and> length items = length (content ([sample_user_message, sample_assistant_message] ! i))
                \<and> (\<forall>j<length items.
                      processContent (js_of_content (content ([sample_user_message, sample_assistant_message] ! i) ! j))
                        = Inr (items ! j))))
   \<and> processMessages (JSON_parse_among []) (js_of_conversation [sample_user_message, sample_assistant_message])
     = Inr (js_of_conversation
              [\<lparr>role = ''user'',
                content = [TextContent ''Show me Paris'', ImageContent ''png'' (Binary [65, 66, 67])]\<rparr>,
               sample_assistant_message])"
proof -
  have h: "js_of_conversation [sample_user_message, sample_assistant_message]
             = js_of_conversation [sample_user_message, sample_assistant_message]
           \<or> (js_of_conversation [sample_user_message, sample_assistant_message] = JStr []
              \<and> JSON_parse_among [] [] = Some (js_of_conversation [sample_user_message, sample_assistant_message]))"
    by simp
  show ?thesis
    using order_is_preserved
            [where inp = "js_of_conversation [sample_user_message, sample_assistant_message]"
               and c = "[sample_user_message, sample_assistant_message]" and s = "[]"
               and JSON_parse = "JSON_parse_among []", OF h]
          sample_conversation_normalized
    by blast
qed

section \<open>The chat exchange\<close>


lemma createUserMessage_state:
  "snd (createUserMessage st) = st\<lparr>inputValue := [], selectedImage := None, imagePreview := None\<rparr>"
  by (simp add: createUserMessage_def removeImage_def Let_def)

lemma handleSubmit_guarded:
  assumes "trim (inputValue st) \<noteq> [] \<or> selectedImage st \<noteq> None"
  shows "handleSubmit JSON_parse chat st =
           (fetchChatResponse_settle JSON_parse (fst (createUserMessage st)) (chat (submit_request st))
              (st\<lparr>inputValue := [], selectedImage := None, imagePreview := None, isLoading := True\<rparr>),
            [submit_request st])"
proof -
  have "handleSubmit JSON_parse chat st
          = fetchChatResponse JSON_parse chat (fst (createUserMessage st)) (snd (createUserMessage st))"
    using assms by (auto simp: handleSubmit_def split: prod.splits)
  then show ?thesis
    by (simp add: fetchChatResponse_def fetchChatResponse_call_def submit_request_def createUserMessage_state)
qed

lemma handleSubmit_idle:
  assumes "trim (inputValue st) = []" and "selectedImage st = None"
  shows "handleSubmit JSON_parse chat st = (st, [])"
  using assms by (simp add: handleSubmit_def)

lemma trim_plain:
  assumes "ws_head s = 0" and "ws_tail s = 0"
  shows "trim s = s"
  using assms by (simp add: trim_def trimStart.simps trimEnd.simps)

lemma trim_Nil: "trim [] = []"
  by (rule trim_plain) (simp_all add: ws_head_def ws_tail_def ws1_def ws2_def ws3_def)

lemma trim_sample: "trim ''Show me Paris'' = ''Show me Paris''"
  by (rule trim_plain) (simp_all add: ws_head_def ws_tail_def ws1_def ws2_def ws3_def)

lemma sample_reply_text: "JSON_stringify sample_reply = JStr (json_text sample_reply)"
proof -
  have "sample_reply \<noteq> JUndefined" by (simp add: sample_reply_def js_of_message_def)
  then show ?thesis by (simp add: JSON_stringify_def)
qed

lemma sample_reply_parses:
  "(case JSON_stringify sample_reply of JStr s \<Rightarrow> JSON_parse_among [sample_reply] s | _ \<Rightarrow> Some (JSON_stringify sample_reply))
     = Some sample_reply"
  unfolding sample_reply_text by (simp add: JSON_parse_among_def)

lemma sample_reply_truthy: "truthy (JSON_stringify sample_reply)"
  by (simp add: JSON_stringify_def sample_reply_def js_of_message_def)

lemma createUserMessage_sample:
  "fst (createUserMessage (handleInputChange ''Show me Paris'' initial_state)) = js_of_message sample_text_message"
  by (simp add: createUserMessage_def handleInputChange_def initial_state_def trim_sample
      js_of_message_def sample_text_message_def js_of_content.simps Let_def)

lemma typed_prop:
  assumes "string_or_absent v"
  shows "truthy v = (text_of v \<noteq> [])" and "truthy v \<Longrightarrow> v = JStr (text_of v)"
  using assms by (cases v; simp add: text_of_def)+

lemma errorMessage_absent:
  "to_string (errorMessage None) = ''undefined''" "to_string (errorMessage (Some [])) = ''undefined''"
  by (simp_all add: errorMessage_def first_error_def opt_get_def js_or_def)

lemma errorMessage_first:
  assumes "gql_error e"
  shows "errorMessage (Some (e # es)) =
           JStr (if text_of (opt_get e ''message'') \<noteq> [] then text_of (opt_get e ''message'')
                 else if text_of (opt_get e ''errorType'') \<noteq> [] then text_of (opt_get e ''errorType'')
                 else json_text e)"
proof -
  from assms obtain kvs where e: "e = JObj kvs"
    by (cases e) (simp_all add: gql_error_def)
  from assms e have m: "string_or_absent (opt_get e ''message'')"
    and t: "string_or_absent (opt_get e ''errorType'')"
    by (simp_all add: gql_error_def)
  have s: "JSON_stringify e = JStr (json_text e)" "typeof e = ''object''" "json_text e \<noteq> []"
    using e by (simp_all add: JSON_stringify_def)
  show ?thesis
    unfolding errorMessage_def first_error_def js_or_def
    using typed_prop [OF m] typed_prop [OF t] s by auto
qed

lemma trim_blank: "trim ''   '' = []"
  by (simp add: trim_def trimStart.simps trimEnd.simps ws_head_def ws_tail_def ws1_def ws2_def ws3_def)


text \<open>
  Claim C1, as the code has it. After a successful \<^verbatim>\<open>submit()\<close> (the guard passes, the remote
  call returns truthy data and no error list, and a string response parses), the history is
  the old history followed by the new user message and the parsed assistant message, in
  that order; the pending text, the selected file and its preview are cleared; loading is
  false; one remote call was made; and the error state is what it was before the call:
  \<^verbatim>\<open>fetchChatResponse\<close> never clears it.
\<close>

theorem successful_submit_appends_two_messages:
  assumes "trim (inputValue st) \<noteq> [] \<or> selectedImage st \<noteq> None"
    and "chat (submit_request st) = Resolved data None"
    and "truthy data"
    and "(case data of JStr s \<Rightarrow> JSON_parse s | _ \<Rightarrow> Some data) = Some responseMessage"
  shows "conversation (fst (handleSubmit JSON_parse chat st))
           = conversation st @ [fst (createUserMessage st), responseMessage]
       \<and> inputValue (fst (handleSubmit JSON_parse chat st)) = []
       \<and> selectedImage (fst (handleSubmit JSON_parse chat st)) = None
       \<and> imagePreview (fst (handleSubmit JSON_parse chat st)) = None
       \<and> isLoading (fst (handleSubmit JSON_parse chat st)) = False
       \<and> error (fst (handleSubmit JSON_parse chat st)) = error st
       \<and> snd (handleSubmit JSON_parse chat st) = [submit_request st]"
  unfolding handleSubmit_guarded [OF assms(1)]
  using assms(2,3,4) by (simp add: fetchChatResponse_settle_def)

theorem successful_submit_appends_two_messages_witness:
  "conversation (fst (handleSubmit (JSON_parse_among [sample_reply]) chat_replies
                        (handleInputChange ''Show me Paris'' initial_state)))
     = [js_of_message sample_text_message, sample_reply]
   \<and> inputValue (fst (handleSubmit (JSON_parse_among [sample_reply]) chat_replies
                        (handleInputChange ''Show me Paris'' initial_state))) = []
   \<and> selectedImage (fst (handleSubmit (JSON_parse_among [sample_reply]) chat_replies
                        (handleInputChange ''Show me Paris'' initial_state))) = None
   \<and> isLoading (fst (handleSubmit (JSON_parse_among [sample_reply]) chat_replies
                        (handleInputChange ''Show me Paris'' initial_state))) = False
   \<and> error (fst (handleSubmit (JSON_parse_among [sample_reply]) chat_replies
                        (handleInputChange ''Show me Paris'' initial_state))) = []"
proof -
  define st where "st = handleInputChange ''Show me Paris'' initial_state"
  have g: "trim (inputValue st) \<noteq> [] \<or> selectedImage st \<noteq> None"
    by (simp add: st_def handleInputChange_def trim_sample)
  have r: "chat_replies (submit_request st) = Resolved (JSON_stringify sample_reply) None"
    by (simp add: chat_replies_def)
  have c: "conversation st = []" and e: "error st = []"
    by (simp_all add: st_def handleInputChange_def initial_state_def)
  have m: "fst (createUserMessage st) = js_of_message sample_text_message"
    unfolding st_def by (rule createUserMessage_sample)
  have "conversation (fst (handleSubmit (JSON_parse_among [sample_reply]) chat_replies st))
          = [js_of_message sample_text_message, sample_reply]
      \<and> inputValue (fst (handleSubmit (JSON_parse_among [sample_reply]) chat_replies st)) = []
      \<and> selectedImage (fst (handleSubmit (JSON_parse_among [sample_reply]) chat_replies st)) = None
      \<and> isLoading (fst (handleSubmit (JSON_parse_among [sample_reply]) chat_replies st)) = False
      \<and> error (fst (handleSubmit (JSON_parse_among [sample_reply]) chat_replies st)) = []"
    using successful_submit_appends_two_messages
            [where st = st and chat = chat_replies and data = "JSON_stringify sample_reply"
               and JSON_parse = "JSON_parse_among [sample_reply]" and responseMessage = sample_reply,
             OF g r sample_reply_truthy sample_reply_parses]
    unfolding m c e by simp
  then show ?thesis unfolding st_def .
qed

text \<open>
  The claim as stated says the error state is unset afterwards. It is not when an error was
  showing: type a text, pick a file of 6 MB (rejected, the error is set), submit; the
  exchange succeeds and the error text is still there.
\<close>

theorem stale_error_counterexample:
  "conversation (fst (handleSubmit (JSON_parse_among [sample_reply]) chat_replies
       (fst (handleImageSelect (Some sample_large_jpeg) (handleInputChange ''Show me Paris'' initial_state)))))
     = [js_of_message sample_text_message, sample_reply]
   \<and> error (fst (handleSubmit (JSON_parse_among [sample_reply]) chat_replies
       (fst (handleImageSelect (Some sample_large_jpeg) (handleInputChange ''Show me Paris'' initial_state)))))
     = ''Image size must be less than 5MB''"
proof -
  define st0 where "st0 = handleInputChange ''Show me Paris'' initial_state"
  define st where "st = fst (handleImageSelect (Some sample_large_jpeg) st0)"
  have st: "st = st0\<lparr>error := ''Image size must be less than 5MB''\<rparr>"
    by (simp add: st_def handleImageSelect_def sample_large_jpeg_def allowedTypes_def)
  have g: "trim (inputValue st) \<noteq> [] \<or> selectedImage st \<noteq> None"
    unfolding st by (simp add: st0_def handleInputChange_def trim_sample)
  have m: "fst (createUserMessage st) = js_of_message sample_text_message"
    unfolding st st0_def
    by (simp add: createUserMessage_def handleInputChange_def initial_state_def trim_sample
        js_of_message_def sample_text_message_def js_of_content.simps Let_def)
  have c: "conversation st = []" and e: "error st = ''Image size must be less than 5MB''"
    unfolding st by (simp_all add: st0_def handleInputChange_def initial_state_def)
  have r: "chat_replies (submit_request st) = Resolved (JSON_stringify sample_reply) None"
    by (simp add: chat_replies_def)
  have "conversation (fst (handleSubmit (JSON_parse_among [sample_reply]) chat_replies st))
          = [js_of_message sample_text_message, sample_reply]
      \<and> error (fst (handleSubmit (JSON_parse_among [sample_reply]) chat_replies st))
          = ''Image size must be less than 5MB''"
    unfolding handleSubmit_guarded [OF g] r
    using sample_reply_truthy sample_reply_parses
    by (simp add: fetchChatResponse_settle_def m c e)
  then show ?thesis unfolding st_def st0_def .
qed

text \<open>
  Claim C2, as the code has it. After a failed \<^verbatim>\<open>submit()\<close> (the remote call reports an error
  list, returns no data, or returns a string that does not parse) the history is what it
  was, loading is false and the error state is a non-empty string. When the error list has
  a first entry, the error state is that entry's \<^verbatim>\<open>message\<close> if it is a non-empty string,
  else its \<^verbatim>\<open>errorType\<close> if that is a non-empty string, else the JSON text of the entry.
  When the response string does not parse it is \<^verbatim>\<open>Failed to parse response data\<close>. The
  entries of the error list have their declared shape.
\<close>

theorem failed_submit_sets_error:
  assumes "trim (inputValue st) \<noteq> [] \<or> selectedImage st \<noteq> None"
    and "chat (submit_request st) = Resolved data errors"
    and "errors \<noteq> None \<or> \<not> truthy data \<or> (\<exists>s. data = JStr s \<and> JSON_parse s = None)"
    and "\<forall>es. errors = Some es \<longrightarrow> list_all gql_error es"
  shows "conversation (fst (handleSubmit JSON_parse chat st)) = conversation st
       \<and> isLoading (fst (handleSubmit JSON_parse chat st)) = False
       \<and> error (fst (handleSubmit JSON_parse chat st)) \<noteq> []
       \<and> (\<forall>e es. errors = Some (e # es) \<longrightarrow>
            error (fst (handleSubmit JSON_parse chat st)) =
              (if text_of (opt_get e ''message'') \<noteq> [] then text_of (opt_get e ''message'')
               else if text_of (opt_get e ''errorType'') \<noteq> [] then text_of (opt_get e ''errorType'')
               else json_text e))
       \<and> (errors = None \<and> truthy data \<longrightarrow>
            error (fst (handleSubmit JSON_parse chat st)) = ''Failed to parse response data'')"
proof -
  define st1 where "st1 = st\<lparr>inputValue := [], selectedImage := None, imagePreview := None, isLoading := True\<rparr>"
  define st' where "st' = fst (handleSubmit JSON_parse chat st)"
  have run: "st' = fetchChatResponse_settle JSON_parse (fst (createUserMessage st)) (Resolved data errors) st1"
    unfolding st'_def st1_def handleSubmit_guarded [OF assms(1)] assms(2) by simp
  have c1: "conversation st1 = conversation st" by (simp add: st1_def)
  show ?thesis
  proof (cases "errors = None \<and> truthy data")
    case True
    with assms(3) obtain s where s: "data = JStr s" "JSON_parse s = None" by auto
    have "st' = st1\<lparr>error := ''Failed to parse response data'', isLoading := False\<rparr>"
      unfolding run using True s by (simp add: fetchChatResponse_settle_def)
    then show ?thesis
      using True c1 unfolding st'_def [symmetric] by simp
  next
    case False
    then have st': "st' = st1\<lparr>error := to_string (errorMessage errors), isLoading := False\<rparr>"
      unfolding run by (auto simp: fetchChatResponse_settle_def)
    have shown: "to_string (errorMessage errors) \<noteq> []
        \<and> (\<forall>e es. errors = Some (e # es) \<longrightarrow>
              to_string (errorMessage errors) =
                (if text_of (opt_get e ''message'') \<noteq> [] then text_of (opt_get e ''message'')
                 else if text_of (opt_get e ''errorType'') \<noteq> [] then text_of (opt_get e ''errorType'')
                 else json_text e))"
    proof (cases errors)
      case None
      then show ?thesis by (simp add: errorMessage_absent)
    next
      case (Some es)
      show ?thesis
      proof (cases es)
        case Nil
        with Some show ?thesis by (simp add: errorMessage_absent)
      next
        case (Cons e es')
        with Some assms(4) have g: "gql_error e" by simp
        then obtain kvs where "e = JObj kvs" by (cases e) (simp_all add: gql_error_def)
        then have "json_text e \<noteq> []" by simp
        then show ?thesis
          unfolding Some Cons errorMessage_first [OF g] by simp
      qed
    qed
    show ?thesis
      using False shown c1 unfolding st'_def [symmetric] st' by auto
  qed
qed

theorem failed_submit_sets_error_witness:
  "conversation (fst (handleSubmit (JSON_parse_among [sample_reply])
       (chat_reports [JObj [(''errorType'', JStr ''Lambda:Unhandled''), (''message'', JStr ''Model timed out'')]])
       (handleInputChange ''Show me Paris'' initial_state))) = []
   \<and> isLoading (fst (handleSubmit (JSON_parse_among [sample_reply])
       (chat_reports [JObj [(''errorType'', JStr ''Lambda:Unhandled''), (''message'', JStr ''Model timed out'')]])
       (handleInputChange ''Show me Paris'' initial_state))) = False
   \<and> error (fst (handleSubmit (JSON_parse_among [sample_reply])
       (chat_reports [JObj [(''errorType'', JStr ''Lambda:Unhandled''), (''message'', JStr ''Model timed out'')]])
       (handleInputChange ''Show me Paris'' initial_state))) = ''Model timed out''"
proof -
  define st where "st = handleInputChange ''Show me Paris'' initial_state"
  define e where "e = JObj [(''errorType'', JStr ''Lambda:Unhandled''), (''message'', JStr ''Model timed out'')]"
  have g: "trim (inputValue st) \<noteq> [] \<or> selectedImage st \<noteq> None"
    by (simp add: st_def handleInputChange_def trim_sample)
  have r: "chat_reports [e] (submit_request st) = Resolved JNull (Some [e])"
    by (simp add: chat_reports_def)
  have f: "Some [e] \<noteq> None \<or> \<not> truthy JNull \<or> (\<exists>s. JNull = JStr s \<and> JSON_parse_among [sample_reply] s = None)"
    by simp
  have t: "\<forall>es. Some [e] = Some es \<longrightarrow> list_all gql_error es"
    by (simp add: e_def gql_error_def opt_get_def)
  have c: "conversation st = []"
    by (simp add: st_def handleInputChange_def initial_state_def)
  have m: "text_of (opt_get e ''message'') = ''Model timed out''"
    by (simp add: e_def opt_get_def text_of_def)
  have "conversation (fst (handleSubmit (JSON_parse_among [sample_reply]) (chat_reports [e]) st)) = []
      \<and> isLoading (fst (handleSubmit (JSON_parse_among [sample_reply]) (chat_reports [e]) st)) = False
      \<and> error (fst (handleSubmit (JSON_parse_among [sample_reply]) (chat_reports [e]) st)) = ''Model timed out''"
    using failed_submit_sets_error
            [where st = st and chat = "chat_reports [e]" and data = JNull and errors = "Some [e]"
               and JSON_parse = "JSON_parse_among [sample_reply]", OF g r f t]
    by (simp add: c m)
  then show ?thesis unfolding st_def e_def .
qed

text \<open>
  The claim as stated gives a generic message as the last fallback. For an error entry with
  neither \<^verbatim>\<open>message\<close> nor \<^verbatim>\<open>errorType\<close> the code shows the entry's JSON text instead.
\<close>

theorem serialized_error_counterexample:
  "opt_get (JObj []) ''message'' = JUndefined
   \<and> opt_get (JObj []) ''errorType'' = JUndefined
   \<and> error (fst (handleSubmit (JSON_parse_among [sample_reply]) (chat_reports [JObj []])
               (handleInputChange ''Show me Paris'' initial_state))) = ''{}''"
proof -
  define st where "st = handleInputChange ''Show me Paris'' initial_state"
  have g: "trim (inputValue st) \<noteq> [] \<or> selectedImage st \<noteq> None"
    by (simp add: st_def handleInputChange_def trim_sample)
  have em: "to_string (errorMessage (Some [JObj []])) = ''{}''"
    by (simp add: errorMessage_def first_error_def opt_get_def js_or_def JSON_stringify_def)
  have "error (fst (handleSubmit (JSON_parse_among [sample_reply]) (chat_reports [JObj []]) st)) = ''{}''"
    unfolding handleSubmit_guarded [OF g]
    by (simp add: chat_reports_def fetchChatResponse_settle_def em)
  then show ?thesis unfolding st_def by (simp add: opt_get_def)
qed

text \<open>
  Claim C3, as the code has it. \<^verbatim>\<open>submit()\<close> is a no-op, no state change and no remote call,
  exactly when the pending text is empty after trimming and no file is selected. When the
  trimmed text is non-empty or a file is selected, with or without a preview, one remote
  call is made.
\<close>

theorem submit_guard:
  "(trim (inputValue st) = [] \<and> selectedImage st = None \<longrightarrow> handleSubmit JSON_parse chat st = (st, []))
   \<and> (trim (inputValue st) \<noteq> [] \<or> selectedImage st \<noteq> None
        \<longrightarrow> snd (handleSubmit JSON_parse chat st) = [submit_request st])"
  using handleSubmit_idle [of st JSON_parse chat] handleSubmit_guarded [of st JSON_parse chat]
  by auto

theorem submit_guard_witness:
  "handleSubmit (JSON_parse_among [sample_reply]) chat_replies (handleInputChange ''   '' initial_state)
     = (handleInputChange ''   '' initial_state, [])
   \<and> snd (handleSubmit (JSON_parse_among [sample_reply]) chat_replies
            (handleInputChange ''Show me Paris'' initial_state))
     = [submit_request (handleInputChange ''Show me Paris'' initial_state)]"
proof -
  have a: "trim (inputValue (handleInputChange ''   '' initial_state)) = []
           \<and> selectedImage (handleInputChange ''   '' initial_state) = None"
    by (simp add: handleInputChange_def initial_state_def trim_blank)
  have b: "trim (inputValue (handleInputChange ''Show me Paris'' initial_state)) \<noteq> []
           \<or> selectedImage (handleInputChange ''Show me Paris'' initial_state) \<noteq> None"
    by (simp add: handleInputChange_def trim_sample)
  show ?thesis
    using submit_guard [of "handleInputChange ''   '' initial_state" "JSON_parse_among [sample_reply]" chat_replies]
          submit_guard [of "handleInputChange ''Show me Paris'' initial_state" "JSON_parse_among [sample_reply]" chat_replies]
          a b
    by blast
qed

text \<open>
  The claim as stated asks for a ready preview. Select a valid file and submit before its
  preview has been read, with no text: the guard \<^verbatim>\<open>inputValue.trim() || selectedImage\<close> passes,
  a remote call is made with a user message of empty content, and the state changes.
\<close>

theorem unready_preview_counterexample:
  "trim (inputValue (fst (handleImageSelect (Some sample_png) initial_state))) = []
   \<and> selectedImage (fst (handleImageSelect (Some sample_png) initial_state)) = Some sample_png
   \<and> imagePreview (fst (handleImageSelect (Some sample_png) initial_state)) = None
   \<and> handleSubmit (JSON_parse_among [sample_reply]) chat_replies
        (fst (handleImageSelect (Some sample_png) initial_state))
       = (initial_state\<lparr>conversation := [JObj [(''role'', JStr ''user''), (''content'', JArr [])], sample_reply]\<rparr>,
          [submit_request (fst (handleImageSelect (Some sample_png) initial_state))])
   \<and> handleSubmit (JSON_parse_among [sample_reply]) chat_replies
        (fst (handleImageSelect (Some sample_png) initial_state))
       \<noteq> (fst (handleImageSelect (Some sample_png) initial_state), [])"
proof -
  define st where "st = fst (handleImageSelect (Some sample_png) initial_state)"
  have st: "st = initial_state\<lparr>selectedImage := Some sample_png, error := []\<rparr>"
    by (simp add: st_def handleImageSelect_def sample_png_def allowedTypes_def)
  have i: "trim (inputValue st) = []" "selectedImage st = Some sample_png" "imagePreview st = None"
    "conversation st = []"
    unfolding st by (simp_all add: initial_state_def trim_Nil)
  have g: "trim (inputValue st) \<noteq> [] \<or> selectedImage st \<noteq> None"
    using i by simp
  have m: "fst (createUserMessage st) = JObj [(''role'', JStr ''user''), (''content'', JArr [])]"
    using i by (simp add: createUserMessage_def Let_def)
  have r: "chat_replies (submit_request st) = Resolved (JSON_stringify sample_reply) None"
    by (simp add: chat_replies_def)
  have run: "handleSubmit (JSON_parse_among [sample_reply]) chat_replies st
       = (initial_state\<lparr>conversation := [JObj [(''role'', JStr ''user''), (''content'', JArr [])], sample_reply]\<rparr>,
          [submit_request st])"
    unfolding handleSubmit_guarded [OF g] r
    using sample_reply_truthy sample_reply_parses
    by (simp add: fetchChatResponse_settle_def m i) (simp add: st initial_state_def)
  have "handleSubmit (JSON_parse_among [sample_reply]) chat_replies st \<noteq> (st, [])"
    unfolding run by simp
  with i run show ?thesis unfolding st_def by simp
qed

text \<open>
  Claim C8. \<^verbatim>\<open>handleImageSelect\<close> checks the file's MIME type against the allow-list of five
  types, then its size against 5 * 1024 * 1024 bytes. On a violation it sets the error
  state to a non-empty text and returns: the selected file and the preview are what they
  were and no read of the file is started. A file that passes both checks is selected. The
  witness is the 6 MB JPEG of the specification, selected in the initial state.
\<close>

theorem image_selection_is_validated:
  "(file_type f \<notin> set allowedTypes
      \<longrightarrow> handleImageSelect (Some f) st
            = (st\<lparr>error := ''Please select a valid image file (JPEG, PNG, GIF, or WebP)''\<rparr>, []))
   \<and> (file_type f \<in> set allowedTypes \<and> file_size f > 5 * 1024 * 1024
      \<longrightarrow> handleImageSelect (Some f) st = (st\<lparr>error := ''Image size must be less than 5MB''\<rparr>, []))
   \<and> (file_type f \<notin> set allowedTypes \<or> file_size f > 5 * 1024 * 1024
      \<longrightarrow> selectedImage (fst (handleImageSelect (Some f) st)) = selectedImage st
          \<and> imagePreview (fst (handleImageSelect (Some f) st)) = imagePreview st
          \<and> error (fst (handleImageSelect (Some f) st)) \<noteq> []
          \<and> snd (handleImageSelect (Some f) st) = [])
   \<and> (file_type f \<in> set allowedTypes \<and> file_size f \<le> 5 * 1024 * 1024
      \<longrightarrow> handleImageSelect (Some f) st = (st\<lparr>selectedImage := Some f, error := []\<rparr>, [f]))
   \<and> set allowedTypes = {''image/jpeg'', ''image/jpg'', ''image/png'', ''image/gif'', ''image/webp''}"
  by (auto simp: handleImageSelect_def allowedTypes_def)

theorem image_selection_is_validated_witness:
  "handleImageSelect (Some sample_large_jpeg) initial_state
     = (initial_state\<lparr>error := ''Image size must be less than 5MB''\<rparr>, [])
   \<and> selectedImage (fst (handleImageSelect (Some sample_large_jpeg) initial_state)) = None
   \<and> imagePreview (fst (handleImageSelect (Some sample_large_jpeg) initial_state)) = None"
proof -
  have h: "file_type sample_large_jpeg \<in> set allowedTypes \<and> file_size sample_large_jpeg > 5 * 1024 * 1024"
    by (simp add: sample_large_jpeg_def allowedTypes_def)
  have "handleImageSelect (Some sample_large_jpeg) initial_state
     = (initial_state\<lparr>error := ''Image size must be less than 5MB''\<rparr>, [])"
    using image_selection_is_validated [of sample_large_jpeg initial_state] h by blast
  then show ?thesis by (simp add: initial_state_def)
qed




text \<open>
  Claim C10. \<^verbatim>\<open>createUserMessage\<close> clears the pending text, the selected file and the preview,
  so they are cleared in the state in which the remote call is made; after a failed
  \<^verbatim>\<open>submit()\<close> (a rejection, an error list, no data, or a response string that does not
  parse) the state is the one before the call with these three cleared, loading false and
  the error state set: nothing is restored.
\<close>

theorem cleared_inputs_are_not_restored:
  assumes "trim (inputValue st) \<noteq> [] \<or> selectedImage st \<noteq> None"
    and "(\<exists>m. chat (submit_request st) = Rejected m)
         \<or> (\<exists>data errors. chat (submit_request st) = Resolved data errors
              \<and> (errors \<noteq> None \<or> \<not> truthy data \<or> (\<exists>s. data = JStr s \<and> JSON_parse s = None)))"
  shows "inputValue (snd (createUserMessage st)) = []
       \<and> selectedImage (snd (createUserMessage st)) = None
       \<and> imagePreview (snd (createUserMessage st)) = None
       \<and> fst (fetchChatResponse_call (fst (createUserMessage st)) (snd (createUserMessage st)))
           = st\<lparr>inputValue := [], selectedImage := None, imagePreview := None, isLoading := True\<rparr>
       \<and> (\<exists>e. fst (handleSubmit JSON_parse chat st)
                 = st\<lparr>inputValue := [], selectedImage := None, imagePreview := None,
                      error := e, isLoading := False\<rparr>)"
proof -
  have early: "inputValue (snd (createUserMessage st)) = []
       \<and> selectedImage (snd (createUserMessage st)) = None
       \<and> imagePreview (snd (createUserMessage st)) = None
       \<and> fst (fetchChatResponse_call (fst (createUserMessage st)) (snd (createUserMessage st)))
           = st\<lparr>inputValue := [], selectedImage := None, imagePreview := None, isLoading := True\<rparr>"
    by (simp add: createUserMessage_state fetchChatResponse_call_def)
  consider (rejected) m where "chat (submit_request st) = Rejected m"
    | (resolved) data errors where "chat (submit_request st) = Resolved data errors"
        and "errors \<noteq> None \<or> \<not> truthy data \<or> (\<exists>s. data = JStr s \<and> JSON_parse s = None)"
    using assms(2) by blast
  then have late: "\<exists>e. fst (handleSubmit JSON_parse chat st)
                 = st\<lparr>inputValue := [], selectedImage := None, imagePreview := None,
                      error := e, isLoading := False\<rparr>"
  proof cases
    case rejected
    then have "fst (handleSubmit JSON_parse chat st)
                 = st\<lparr>inputValue := [], selectedImage := None, imagePreview := None,
                      error := m, isLoading := False\<rparr>"
      unfolding handleSubmit_guarded [OF assms(1)] by (simp add: fetchChatResponse_settle_def)
    then show ?thesis by (rule exI)
  next
    case resolved
    note r = resolved(1) and f = resolved(2)
    show ?thesis
    proof (cases "errors = None \<and> truthy data")
      case True
      with f obtain s where "data = JStr s" "JSON_parse s = None" by auto
      with True r have "fst (handleSubmit JSON_parse chat st)
                 = st\<lparr>inputValue := [], selectedImage := None, imagePreview := None,
                      error := ''Failed to parse response data'', isLoading := False\<rparr>"
        unfolding handleSubmit_guarded [OF assms(1)] by (simp add: fetchChatResponse_settle_def)
      then show ?thesis by (rule exI)
    next
      case False
      with r have "fst (handleSubmit JSON_parse chat st)
                 = st\<lparr>inputValue := [], selectedImage := None, imagePreview := None,
                      error := to_string (errorMessage errors), isLoading := False\<rparr>"
        unfolding handleSubmit_guarded [OF assms(1)] by (auto simp: fetchChatResponse_settle_def)
      then show ?thesis by (rule exI)
    qed
  qed
  from early late show ?thesis by blast
qed

theorem cleared_inputs_are_not_restored_witness:
  "fst (handleSubmit (JSON_parse_among [sample_reply]) (chat_reports [JObj [(''message'', JStr ''Model timed out'')]])
         (reader_onload (Some ''data:image/png;base64,QUJD'')
            (fst (handleImageSelect (Some sample_png) (handleInputChange ''Show me Paris'' initial_state)))))
     = initial_state\<lparr>error := ''Model timed out''\<rparr>"
proof -
  define st where "st = reader_onload (Some ''data:image/png;base64,QUJD'')
            (fst (handleImageSelect (Some sample_png) (handleInputChange ''Show me Paris'' initial_state)))"
  define e where "e = JObj [(''message'', JStr ''Model timed out'')]"
  have st: "st = initial_state\<lparr>inputValue := ''Show me Paris'', selectedImage := Some sample_png,
                               imagePreview := Some ''data:image/png;base64,QUJD''\<rparr>"
    by (simp add: st_def reader_onload_def handleImageSelect_def handleInputChange_def sample_png_def
        allowedTypes_def initial_state_def)
  have g: "trim (inputValue st) \<noteq> [] \<or> selectedImage st \<noteq> None"
    unfolding st by simp
  have r: "(\<exists>m. chat_reports [e] (submit_request st) = Rejected m)
         \<or> (\<exists>data errors. chat_reports [e] (submit_request st) = Resolved data errors
              \<and> (errors \<noteq> None \<or> \<not> truthy data
                   \<or> (\<exists>s. data = JStr s \<and> JSON_parse_among [sample_reply] s = None)))"
    by (simp add: chat_reports_def)
  obtain x where x: "fst (handleSubmit (JSON_parse_among [sample_reply]) (chat_reports [e]) st)
                 = st\<lparr>inputValue := [], selectedImage := None, imagePreview := None,
                      error := x, isLoading := False\<rparr>"
    using cleared_inputs_are_not_restored
            [where st = st and chat = "chat_reports [e]" and JSON_parse = "JSON_parse_among [sample_reply]",
             OF g r]
    by blast
  have "error (fst (handleSubmit (JSON_parse_among [sample_reply]) (chat_reports [e]) st)) = ''Model timed out''"
    unfolding handleSubmit_guarded [OF g]
    by (simp add: chat_reports_def fetchChatResponse_settle_def errorMessage_def first_error_def
        opt_get_def js_or_def e_def)
  with x have "x = ''Model timed out''" by simp
  with x have "fst (handleSubmit (JSON_parse_among [sample_reply]) (chat_reports [e]) st)
                 = initial_state\<lparr>error := ''Model timed out''\<rparr>"
    by (simp add: st initial_state_def)
  then show ?thesis unfolding st_def e_def .
qed

end
